theory Spec2Isabelle
  imports Main "HOL-Library.Sublist" "HOL-Library.AList"
begin

section \<open>Python values and text\<close>

text \<open>
  A Python \<open>str\<close> is a \<open>string\<close>; one \<open>char\<close> stands for one code point (the code
  points 0 to 255: every literal of the program is ASCII). The values that \<open>json.load\<close>
  and the pip loader build are the dynamically typed \<open>pyval\<close>; a \<open>dict\<close> is the list of
  its items in insertion order (its keys are pairwise distinct), a float is either
  \<open>m * 2 ^ e\<close>, an infinity or a NaN.
\<close>

datatype pyfloat = FFinite int int | FInfinity bool | FNaN

datatype pyval =
    PNone
  | PBool bool
  | PInt int
  | PFloat pyfloat
  | PStr string
  | PList "pyval list"
  | PDict "(string \<times> pyval) list"

text \<open>Truth value testing, as \<open>not x\<close> and \<open>if x:\<close> perform it.\<close>

fun truthy :: "pyval \<Rightarrow> bool" where
  "truthy PNone = False"
| "truthy (PBool b) = b"
| "truthy (PInt i) = (i \<noteq> 0)"
| "truthy (PFloat (FFinite m e)) = (m \<noteq> 0)"
| "truthy (PFloat (FInfinity s)) = True"
| "truthy (PFloat FNaN) = True"
| "truthy (PStr s) = (s \<noteq> [])"
| "truthy (PList xs) = (xs \<noteq> [])"
| "truthy (PDict d) = (d \<noteq> [])"

text \<open>
  \<open>str.isspace\<close> on one character: the code points below 256 that Python counts as
  whitespace are 9 to 13, 28 to 32, 133 and 160.
\<close>

definition isspace :: "char \<Rightarrow> bool" where
  "isspace c = ((of_char c :: nat) \<in> {9, 10, 11, 12, 13, 28, 29, 30, 31, 32, 133, 160})"

definition lstrip :: "string \<Rightarrow> string" where
  "lstrip s = dropWhile isspace s"

definition rstrip :: "string \<Rightarrow> string" where
  "rstrip s = rev (dropWhile isspace (rev s))"

definition strip :: "string \<Rightarrow> string" where
  "strip s = lstrip (rstrip s)"

definition startswith :: "string \<Rightarrow> string \<Rightarrow> bool" where
  "startswith s p = prefix p s"

text \<open>\<open>needle in hay\<close> for two strings: \<open>needle\<close> occurs as a contiguous piece.\<close>

fun str_in :: "string \<Rightarrow> string \<Rightarrow> bool" where
  "str_in needle [] = (needle = [])"
| "str_in needle (c # cs) = (prefix needle (c # cs) \<or> str_in needle cs)"

text \<open>\<open>sep.join(xs)\<close>.\<close>

fun join :: "string \<Rightarrow> string list \<Rightarrow> string" where
  "join sep [] = []"
| "join sep [x] = x"
| "join sep (x # y # xs) = x @ sep @ join sep (y # xs)"

section \<open>Exceptions and the interpreter\<close>

text \<open>
  The first three exceptions are raised by the program with the message it builds.
  \<open>JSONDecodeError\<close> and \<open>OSError\<close> come from \<open>json.load\<close> and from opening or reading
  a file; \<open>AttributeError\<close>, \<open>TypeError\<close> and \<open>KeyError\<close> are the interpreter's, raised
  when an operation meets a value of the wrong type (the value and the attribute or
  operation are recorded).
\<close>

datatype py_exc =
    FileNotFoundError string
  | ValueError string
  | Exception string
  | JSONDecodeError
  | OSError
  | AttributeError pyval string
  | TypeError string pyval
  | KeyError string

text \<open>
  What the program leaves to the interpreter and the library: the order in which a
  \<open>set\<close> of strings is iterated (it depends on the string hashes of the process),
  \<open>str()\<close> of a value that is not a string, the text of an exception the interpreter
  raised, and the JSON parser.
\<close>

record runtime =
  set_order :: "string set \<Rightarrow> string list"
  to_str :: "pyval \<Rightarrow> string"
  fault_text :: "py_exc \<Rightarrow> string"
  json_load :: "string \<Rightarrow> py_exc + pyval"

text \<open>An iteration over a set visits every element once.\<close>

definition enumerates :: "(string set \<Rightarrow> string list) \<Rightarrow> string set \<Rightarrow> bool" where
  "enumerates ord S = (set (ord S) = S \<and> distinct (ord S))"

text \<open>A replacement field \<open>{x}\<close> of an f-string.\<close>

fun format_value :: "runtime \<Rightarrow> pyval \<Rightarrow> string" where
  "format_value rt (PStr s) = s"
| "format_value rt v = to_str rt v"

text \<open>\<open>str(e)\<close> of an exception.\<close>

fun exc_str :: "runtime \<Rightarrow> py_exc \<Rightarrow> string" where
  "exc_str rt (FileNotFoundError m) = m"
| "exc_str rt (ValueError m) = m"
| "exc_str rt (Exception m) = m"
| "exc_str rt e = fault_text rt e"

text \<open>\<open>needle in v\<close> for a string \<open>needle\<close> and any value \<open>v\<close>.\<close>

fun py_contains :: "string \<Rightarrow> pyval \<Rightarrow> py_exc + bool" where
  "py_contains needle (PStr s) = Inr (str_in needle s)"
| "py_contains needle (PList xs) = Inr (PStr needle \<in> set xs)"
| "py_contains needle (PDict d) = Inr (needle \<in> set (map fst d))"
| "py_contains needle v = Inl (TypeError ''in'' v)"

text \<open>\<open>v[key]\<close> for a string \<open>key\<close>.\<close>

fun py_getitem :: "pyval \<Rightarrow> string \<Rightarrow> py_exc + pyval" where
  "py_getitem (PDict d) key =
     (case map_of d key of Some v \<Rightarrow> Inr v | None \<Rightarrow> Inl (KeyError key))"
| "py_getitem v key = Inl (TypeError ''subscript'' v)"

text \<open>The values a \<open>for\<close> loop over \<open>v\<close> visits.\<close>

fun py_iter :: "pyval \<Rightarrow> py_exc + pyval list" where
  "py_iter (PList xs) = Inr xs"
| "py_iter (PDict d) = Inr (map (\<lambda>kv. PStr (fst kv)) d)"
| "py_iter (PStr s) = Inr (map (\<lambda>c. PStr [c]) s)"
| "py_iter v = Inl (TypeError ''iter'' v)"

fun py_startswith :: "pyval \<Rightarrow> string \<Rightarrow> py_exc + bool" where
  "py_startswith (PStr s) p = Inr (startswith s p)"
| "py_startswith v p = Inl (AttributeError v ''startswith'')"

fun py_keys :: "pyval \<Rightarrow> py_exc + string list" where
  "py_keys (PDict d) = Inr (map fst d)"
| "py_keys v = Inl (AttributeError v ''keys'')"

fun py_items :: "pyval \<Rightarrow> py_exc + (string \<times> pyval) list" where
  "py_items (PDict d) = Inr d"
| "py_items v = Inl (AttributeError v ''items'')"

text \<open>\<open>v.get(key)\<close>: the value, or \<open>None\<close> for a missing key.\<close>

fun py_get :: "pyval \<Rightarrow> string \<Rightarrow> py_exc + pyval" where
  "py_get (PDict d) key = Inr (case map_of d key of Some v \<Rightarrow> v | None \<Rightarrow> PNone)"
| "py_get v key = Inl (AttributeError v ''get'')"

section \<open>Files\<close>

text \<open>
  A path that exists names a node: a file whose text can be read, or something that
  makes \<open>open\<close> or the read raise (a directory, a file without permission, bytes
  that do not decode).
\<close>

datatype file_node = Readable string | Unreadable

type_synonym filesystem = "string \<rightharpoonup> file_node"

text \<open>
  Text mode reads with universal newlines: \<open>\r\n\<close> and \<open>\r\<close> arrive as \<open>\n\<close>.
  \<open>readlines\<close> cuts after every \<open>\n\<close> and keeps it on the line.
\<close>

fun universal_newlines :: "string \<Rightarrow> string" where
  "universal_newlines [] = []"
| "universal_newlines [c] = (if c = CHR 0x0D then [CHR 0x0A] else [c])"
| "universal_newlines (c # d # cs) =
     (if c = CHR 0x0D \<and> d = CHR 0x0A then CHR 0x0A # universal_newlines cs
      else if c = CHR 0x0D then CHR 0x0A # universal_newlines (d # cs)
      else c # universal_newlines (d # cs))"

fun split_lines :: "string \<Rightarrow> string \<Rightarrow> string list" where
  "split_lines cur [] = (if cur = [] then [] else [cur])"
| "split_lines cur (c # cs) =
     (if c = CHR 0x0A then (cur @ [c]) # split_lines [] cs
      else split_lines (cur @ [c]) cs)"

definition readlines :: "string \<Rightarrow> string list" where
  "readlines content = split_lines [] (universal_newlines content)"

section \<open>ManifestLinter\<close>

record linter =
  manifest_type :: string
  manifest_file :: string
  manifest_data :: pyval

text \<open>
  The body of the \<open>try\<close> in \<open>_load_manifest\<close>, with the exception it raises before
  any handler sees it.
\<close>

definition load_body :: "runtime \<Rightarrow> file_node \<Rightarrow> string \<Rightarrow> py_exc + pyval" where
  "load_body rt node mtype =
     (if mtype = ''npm'' then
        (case node of
           Unreadable \<Rightarrow> Inl OSError
         | Readable content \<Rightarrow> json_load rt content)
      else if mtype = ''pip'' then
        (case node of
           Unreadable \<Rightarrow> Inl OSError
         | Readable content \<Rightarrow>
             Inr (PDict [(''dependencies'',
               PList (map (\<lambda>line. PStr (strip line))
                 (filter (\<lambda>line. strip line \<noteq> [] \<and> \<not> startswith line ''#'')
                   (readlines content))))]))
      else if mtype = ''maven'' then Inr (PDict [])
      else Inl (ValueError (''Unsupported manifest type: '' @ mtype)))"

text \<open>
  The two handlers of that \<open>try\<close>: \<open>except json.JSONDecodeError\<close>, then
  \<open>except Exception\<close>, which takes every other exception of the body.
\<close>

fun load_handlers :: "string \<Rightarrow> py_exc \<Rightarrow> py_exc" where
  "load_handlers mfile JSONDecodeError = ValueError (''Invalid JSON in '' @ mfile)"
| "load_handlers mfile e = Exception (''Error loading manifest file: '' @ mfile)"

definition load_manifest :: "runtime \<Rightarrow> filesystem \<Rightarrow> string \<Rightarrow> string \<Rightarrow> py_exc + pyval" where
  "load_manifest rt fs mtype mfile =
     (case fs mfile of
        None \<Rightarrow> Inl (FileNotFoundError (''Manifest file not found: '' @ mfile))
      | Some node \<Rightarrow>
          (case load_body rt node mtype of
             Inr data \<Rightarrow> Inr data
           | Inl e \<Rightarrow> Inl (load_handlers mfile e)))"

text \<open>\<open>__init__\<close>: the object exists only when the load succeeded.\<close>

definition init :: "runtime \<Rightarrow> filesystem \<Rightarrow> string \<Rightarrow> string \<Rightarrow> py_exc + linter" where
  "init rt fs mtype mfile =
     (case load_manifest rt fs mtype mfile of
        Inl e \<Rightarrow> Inl e
      | Inr data \<Rightarrow>
          Inr \<lparr>manifest_type = mtype, manifest_file = mfile, manifest_data = data\<rparr>)"

subsection \<open>pip rules\<close>

definition unpinned_warning :: "runtime \<Rightarrow> pyval \<Rightarrow> string" where
  "unpinned_warning rt dep =
     ''Warning: Dependency '' @ [CHR 0x27] @ format_value rt dep @ [CHR 0x27] @
     '' does not have a specific version specified. Consider using '' @
     [CHR 0x27] @ ''=='' @ [CHR 0x27] @ '' for reproducible builds.''"

definition include_info :: "runtime \<Rightarrow> pyval \<Rightarrow> string" where
  "include_info rt dep =
     ''Info: Dependency includes another requirement file '' @
     [CHR 0x27] @ format_value rt dep @ [CHR 0x27] @
     ''.  Verify included files are present.''"

text \<open>
  The condition of the first \<open>if\<close> of the loop body:
  \<open>"==" not in dep and ">=" not in dep and "<=" not in dep and "~=" not in dep\<close>,
  evaluated left to right, stopping at the first operand that is false.
\<close>

definition no_version_operator :: "pyval \<Rightarrow> py_exc + bool" where
  "no_version_operator dep =
     (case py_contains ''=='' dep of Inl e \<Rightarrow> Inl e | Inr a \<Rightarrow>
        if a then Inr False else
     (case py_contains ''>='' dep of Inl e \<Rightarrow> Inl e | Inr b \<Rightarrow>
        if b then Inr False else
     (case py_contains ''<='' dep of Inl e \<Rightarrow> Inl e | Inr c \<Rightarrow>
        if c then Inr False else
     (case py_contains ''~='' dep of Inl e \<Rightarrow> Inl e | Inr d \<Rightarrow>
        Inr (\<not> d)))))"

text \<open>The \<open>for dep in ...\<close> loop; \<open>messages\<close> is the list built so far.\<close>

fun pip_loop :: "runtime \<Rightarrow> pyval list \<Rightarrow> string list \<Rightarrow> py_exc + string list" where
  "pip_loop rt [] messages = Inr messages"
| "pip_loop rt (dep # deps) messages =
     (case no_version_operator dep of
        Inl e \<Rightarrow> Inl e
      | Inr unpinned \<Rightarrow>
          (let messages1 =
                 (if unpinned then messages @ [unpinned_warning rt dep] else messages)
           in case py_startswith dep ''-r'' of
                Inl e \<Rightarrow> Inl e
              | Inr incl \<Rightarrow>
                  pip_loop rt deps
                    (if incl then messages1 @ [include_info rt dep] else messages1)))"

definition lint_pip :: "runtime \<Rightarrow> linter \<Rightarrow> py_exc + string list" where
  "lint_pip rt self =
     (case py_contains ''dependencies'' (manifest_data self) of
        Inl e \<Rightarrow> Inl e
      | Inr present \<Rightarrow>
          if present then
            (case py_getitem (manifest_data self) ''dependencies'' of
               Inl e \<Rightarrow> Inl e
             | Inr deps \<Rightarrow>
                 (case py_iter deps of
                    Inl e \<Rightarrow> Inl e
                  | Inr ds \<Rightarrow> pip_loop rt ds []))
          else Inr [])"

subsection \<open>npm rules\<close>

definition missing_description :: string where
  "missing_description = ''Warning: 'description' field is missing in package.json''"

definition missing_repository :: string where
  "missing_repository = ''Warning: 'repository' field is missing in package.json''"

definition overlap_warning :: "string list \<Rightarrow> string" where
  "overlap_warning names =
     ''Warning: The following dependencies exist in both 'dependencies' and 'devDependencies': ''
     @ join '', '' names"

definition wildcard_warning :: "runtime \<Rightarrow> string \<Rightarrow> pyval \<Rightarrow> string" where
  "wildcard_warning rt dep version =
     ''Warning: Dependency '' @ dep @ '' has a wildcard version: '' @ format_value rt version"

text \<open>
  The third check: when both keys are in the manifest, the two key sets are
  intersected, and a non-empty intersection is joined in the set's iteration order.
\<close>

definition overlap_check :: "runtime \<Rightarrow> pyval \<Rightarrow> string list \<Rightarrow> py_exc + string list" where
  "overlap_check rt data messages =
     (case py_contains ''dependencies'' data of Inl e \<Rightarrow> Inl e | Inr has_deps \<Rightarrow>
      if \<not> has_deps then Inr messages else
     (case py_contains ''devDependencies'' data of Inl e \<Rightarrow> Inl e | Inr has_dev \<Rightarrow>
      if \<not> has_dev then Inr messages else
     (case py_getitem data ''dependencies'' of Inl e \<Rightarrow> Inl e | Inr deps \<Rightarrow>
     (case py_keys deps of Inl e \<Rightarrow> Inl e | Inr ks1 \<Rightarrow>
     (case py_getitem data ''devDependencies'' of Inl e \<Rightarrow> Inl e | Inr dev \<Rightarrow>
     (case py_keys dev of Inl e \<Rightarrow> Inl e | Inr ks2 \<Rightarrow>
        (let common_deps = set ks1 \<inter> set ks2 in
         if common_deps \<noteq> {}
         then Inr (messages @ [overlap_warning (set_order rt common_deps)])
         else Inr messages)))))))"

text \<open>The inner loop of the fourth check, over the items of one dependency group.\<close>

fun wildcard_loop ::
  "runtime \<Rightarrow> (string \<times> pyval) list \<Rightarrow> string list \<Rightarrow> py_exc + string list" where
  "wildcard_loop rt [] messages = Inr messages"
| "wildcard_loop rt ((dep, version) # items) messages =
     (case py_contains ''*'' version of
        Inl e \<Rightarrow> Inl e
      | Inr wild \<Rightarrow>
          wildcard_loop rt items
            (if wild then messages @ [wildcard_warning rt dep version] else messages))"

text \<open>The outer loop, \<open>for dep_type in ["dependencies", "devDependencies"]\<close>.\<close>

fun dep_type_loop ::
  "runtime \<Rightarrow> pyval \<Rightarrow> string list \<Rightarrow> string list \<Rightarrow> py_exc + string list" where
  "dep_type_loop rt data [] messages = Inr messages"
| "dep_type_loop rt data (dep_type # rest) messages =
     (case py_contains dep_type data of
        Inl e \<Rightarrow> Inl e
      | Inr present \<Rightarrow>
          if present then
            (case py_getitem data dep_type of Inl e \<Rightarrow> Inl e | Inr deps_of_type \<Rightarrow>
            (case py_items deps_of_type of Inl e \<Rightarrow> Inl e | Inr items \<Rightarrow>
            (case wildcard_loop rt items messages of Inl e \<Rightarrow> Inl e | Inr messages1 \<Rightarrow>
               dep_type_loop rt data rest messages1)))
          else dep_type_loop rt data rest messages)"

definition lint_npm :: "runtime \<Rightarrow> linter \<Rightarrow> py_exc + string list" where
  "lint_npm rt self =
     (case py_get (manifest_data self) ''description'' of Inl e \<Rightarrow> Inl e | Inr description \<Rightarrow>
       (let messages1 = (if \<not> truthy description then [missing_description] else []) in
     (case py_get (manifest_data self) ''repository'' of Inl e \<Rightarrow> Inl e | Inr repository \<Rightarrow>
       (let messages2 =
              (if \<not> truthy repository then messages1 @ [missing_repository] else messages1) in
     (case overlap_check rt (manifest_data self) messages2 of Inl e \<Rightarrow> Inl e | Inr messages3 \<Rightarrow>
        dep_type_loop rt (manifest_data self) [''dependencies'', ''devDependencies'']
          messages3)))))"

subsection \<open>maven rules and the dispatch\<close>

definition lint_maven :: "linter \<Rightarrow> py_exc + string list" where
  "lint_maven self =
     Inr [''Maven linting is not fully implemented yet.  This is a placeholder.'']"

text \<open>\<open>lint\<close> extends an empty list by the messages of the branch that matches.\<close>

definition lint :: "runtime \<Rightarrow> linter \<Rightarrow> py_exc + string list" where
  "lint rt self =
     (if manifest_type self = ''npm'' then
        (case lint_npm rt self of Inl e \<Rightarrow> Inl e | Inr ms \<Rightarrow> Inr ([] @ ms))
      else if manifest_type self = ''pip'' then
        (case lint_pip rt self of Inl e \<Rightarrow> Inl e | Inr ms \<Rightarrow> Inr ([] @ ms))
      else if manifest_type self = ''maven'' then
        (case lint_maven self of Inl e \<Rightarrow> Inl e | Inr ms \<Rightarrow> Inr ([] @ ms))
      else Inr [])"

section \<open>The driver\<close>

text \<open>
  \<open>main\<close> after the arguments are parsed: the lines it prints and the code it returns.
  The three handlers are tried in the order of the source; \<open>JSONDecodeError\<close> is a
  subclass of \<open>ValueError\<close>.
\<close>

fun main_handlers :: "runtime \<Rightarrow> py_exc \<Rightarrow> string list \<times> int" where
  "main_handlers rt (FileNotFoundError m) = ([''Error: '' @ m], 1)"
| "main_handlers rt (ValueError m) = ([''Error: '' @ m], 1)"
| "main_handlers rt JSONDecodeError = ([''Error: '' @ exc_str rt JSONDecodeError], 1)"
| "main_handlers rt e = ([''An unexpected error occurred: '' @ exc_str rt e], 1)"

definition main :: "runtime \<Rightarrow> filesystem \<Rightarrow> string \<Rightarrow> string \<Rightarrow> string list \<times> int" where
  "main rt fs mtype mfile =
     (case init rt fs mtype mfile of
        Inl e \<Rightarrow> main_handlers rt e
      | Inr linter \<Rightarrow>
          (case lint rt linter of
             Inl e \<Rightarrow> main_handlers rt e
           | Inr linting_messages \<Rightarrow>
               if linting_messages \<noteq> []
               then (''Linting results:'' # linting_messages, 1)
               else ([''No linting issues found.''], 0)))"

text \<open>Loading, then evaluating: what \<open>main\<close> does before it prints.\<close>

definition load_and_lint ::
  "runtime \<Rightarrow> filesystem \<Rightarrow> string \<Rightarrow> string \<Rightarrow> py_exc + string list" where
  "load_and_lint rt fs mtype mfile =
     (case init rt fs mtype mfile of Inl e \<Rightarrow> Inl e | Inr linter \<Rightarrow> lint rt linter)"

definition diagnostics :: "py_exc + string list \<Rightarrow> string list" where
  "diagnostics r = (case r of Inl e \<Rightarrow> [] | Inr ms \<Rightarrow> ms)"

section \<open>Shapes of a manifest, kinds of message\<close>

text \<open>
  The shape that matches a manifest type. For npm: a \<open>dict\<close> whose \<open>dependencies\<close>
  and \<open>devDependencies\<close>, where present, are \<open>dict\<close>s with string values. For pip: what
  the loader builds, a \<open>dict\<close> with the list of lines under \<open>dependencies\<close>. For maven:
  the empty \<open>dict\<close>.
\<close>

fun is_str :: "pyval \<Rightarrow> bool" where
  "is_str (PStr s) = True"
| "is_str v = False"

fun has_star :: "pyval \<Rightarrow> bool" where
  "has_star (PStr s) = (CHR ''*'' \<in> set s)"
| "has_star v = False"

fun string_valued :: "pyval \<Rightarrow> bool" where
  "string_valued (PDict g) = list_all (\<lambda>kv. is_str (snd kv)) g"
| "string_valued v = False"

definition group_ok :: "(string \<times> pyval) list \<Rightarrow> string \<Rightarrow> bool" where
  "group_ok d key = (case map_of d key of None \<Rightarrow> True | Some g \<Rightarrow> string_valued g)"

fun npm_shape :: "pyval \<Rightarrow> bool" where
  "npm_shape (PDict d) = (group_ok d ''dependencies'' \<and> group_ok d ''devDependencies'')"
| "npm_shape v = False"

fun pip_shape :: "pyval \<Rightarrow> bool" where
  "pip_shape (PDict [(key, PList xs)]) = (key = ''dependencies'' \<and> list_all is_str xs)"
| "pip_shape v = False"

definition shape_matches :: "string \<Rightarrow> pyval \<Rightarrow> bool" where
  "shape_matches mtype data =
     (mtype = ''npm'' \<and> npm_shape data \<or>
      mtype = ''pip'' \<and> pip_shape data \<or>
      mtype = ''maven'' \<and> data = PDict [])"

text \<open>
  The items and the keys of a dependency group of the manifest; none when the group
  is absent.
\<close>

fun group_items :: "pyval \<Rightarrow> string \<Rightarrow> (string \<times> pyval) list" where
  "group_items (PDict d) key = (case map_of d key of Some (PDict g) \<Rightarrow> g | _ \<Rightarrow> [])"
| "group_items v key = []"

definition group_keys :: "pyval \<Rightarrow> string \<Rightarrow> string list" where
  "group_keys data key = map fst (group_items data key)"

text \<open>
  The wildcard warnings of a list of items, in its order: one for every item whose
  version is a string with a \<open>*\<close> in it.
\<close>

definition wildcard_warnings :: "runtime \<Rightarrow> (string \<times> pyval) list \<Rightarrow> string list" where
  "wildcard_warnings rt items =
     map (\<lambda>kv. wildcard_warning rt (fst kv) (snd kv)) (filter (\<lambda>kv. has_star (snd kv)) items)"

text \<open>The messages of the npm rules are told apart by how they begin.\<close>

definition is_overlap_warning :: "string \<Rightarrow> bool" where
  "is_overlap_warning m = prefix ''Warning: The following dependencies exist in both'' m"

definition is_wildcard_warning :: "string \<Rightarrow> bool" where
  "is_wildcard_warning m = prefix ''Warning: Dependency '' m"

definition common_keys :: "pyval \<Rightarrow> string set" where
  "common_keys data =
     set (group_keys data ''dependencies'') \<inter> set (group_keys data ''devDependencies'')"

text \<open>The warning of a field check: none when the value under the key is truthy.\<close>

definition field_warning :: "pyval \<Rightarrow> string \<Rightarrow> string \<Rightarrow> string list" where
  "field_warning data key message =
     (case py_get data key of Inr v \<Rightarrow> if truthy v then [] else [message] | Inl e \<Rightarrow> [])"

text \<open>The diagnostics of one pip line, as the two checks of the rule set give them.\<close>

definition line_diagnostics :: "runtime \<Rightarrow> string \<Rightarrow> string list" where
  "line_diagnostics rt line =
     (if str_in ''=='' line \<or> str_in ''>='' line \<or> str_in ''<='' line \<or> str_in ''~='' line
      then [] else [unpinned_warning rt (PStr line)]) @
     (if prefix ''-r'' line then [include_info rt (PStr line)] else [])"

section \<open>Inputs of the concrete runs\<close>

text \<open>
  A runtime for the concrete runs: sets over \<open>a\<close> and \<open>b\<close> are iterated in that order,
  and the parser knows the empty object only.
\<close>

definition sample_runtime :: runtime where
  "sample_runtime =
     \<lparr>set_order = (\<lambda>S. filter (\<lambda>k. k \<in> S) [''a'', ''b'']),
      to_str = (\<lambda>v. ''<value>''),
      fault_text = (\<lambda>e. ''<fault>''),
      json_load =
        (\<lambda>content. if content = ''{}'' then Inr (PDict []) else Inl JSONDecodeError)\<rparr>"

text \<open>The pip file of the second end-to-end example, and a file with one indented comment.\<close>

definition example_requirements :: string where
  "example_requirements =
     ''flask==2.0.0\<newline>\<newline># comment\<newline>-r other.txt\<newline>''"

definition example_files :: filesystem where
  "example_files = [''requirements.txt'' \<mapsto> Readable example_requirements]"

definition indented_comment :: string where
  "indented_comment = ''  # comment\<newline>''"

definition example_package :: pyval where
  "example_package =
     PDict [(''dependencies'', PDict [(''a'', PStr ''*'')]),
            (''devDependencies'', PDict [(''a'', PStr ''1.0.0'')])]"

text \<open>
  Two more runtimes: one that agrees with the sample runtime on the sets over \<open>a\<close> and
  \<open>b\<close> and differs from it elsewhere, and one that iterates those sets the other way
  round. A package whose two dependency groups share the keys \<open>a\<close> and \<open>b\<close>.
\<close>

definition second_runtime :: runtime where
  "second_runtime =
     \<lparr>set_order = (\<lambda>S. filter (\<lambda>k. k \<in> S) [''a'', ''b'', ''c'']),
      to_str = (\<lambda>v. ''<object>''),
      fault_text = (\<lambda>e. ''<error>''),
      json_load = (\<lambda>content. Inl JSONDecodeError)\<rparr>"

definition reversed_runtime :: runtime where
  "reversed_runtime =
     \<lparr>set_order = (\<lambda>S. filter (\<lambda>k. k \<in> S) [''b'', ''a'']),
      to_str = (\<lambda>v. ''<value>''),
      fault_text = (\<lambda>e. ''<fault>''),
      json_load =
        (\<lambda>content. if content = ''{}'' then Inr (PDict []) else Inl JSONDecodeError)\<rparr>"

definition shared_package :: pyval where
  "shared_package =
     PDict [(''description'', PStr ''x''), (''repository'', PStr ''y''),
            (''dependencies'', PDict [(''a'', PStr ''1.0.0''), (''b'', PStr ''2.0.0'')]),
            (''devDependencies'', PDict [(''b'', PStr ''2.0.0''), (''a'', PStr ''1.0.0'')])]"

section \<open>The pip example, end to end\<close>

lemma readlines_example:
  "readlines example_requirements =
     [''flask==2.0.0\<newline>'', ''\<newline>'', ''# comment\<newline>'', ''-r other.txt\<newline>'']"
  by (simp add: readlines_def example_requirements_def)

lemma load_example:
  "load_manifest rt example_files ''pip'' ''requirements.txt'' =
   Inr (PDict [(''dependencies'', PList [PStr ''flask==2.0.0'', PStr ''-r other.txt''])])"
  by (simp add: example_files_def load_manifest_def load_body_def readlines_example
      strip_def lstrip_def
      rstrip_def isspace_def startswith_def)

lemma flask_has_operator: "no_version_operator (PStr ''flask==2.0.0'') = Inr False"
  by (simp add: no_version_operator_def)

lemma include_has_no_operator: "no_version_operator (PStr ''-r other.txt'') = Inr True"
  by (simp add: no_version_operator_def)

lemma lint_example:
  "lint rt \<lparr>manifest_type = ''pip'', manifest_file = f,
     manifest_data =
       PDict [(''dependencies'', PList [PStr ''flask==2.0.0'', PStr ''-r other.txt''])]\<rparr> =
   Inr [unpinned_warning rt (PStr ''-r other.txt''), include_info rt (PStr ''-r other.txt'')]"
  by (simp add: lint_def lint_pip_def flask_has_operator include_has_no_operator
      startswith_def)

text \<open>
  C1, as the specification states it: the example file yields exactly one diagnostic.
  The run yields two, so the number of diagnostics is not one.
\<close>

theorem example_two_not_one_diagnostic:
  "length (diagnostics
      (load_and_lint sample_runtime example_files ''pip'' ''requirements.txt'')) \<noteq> 1"
  by (simp add: load_and_lint_def init_def load_example lint_example diagnostics_def)

text \<open>
  C1, amended: for the pip file with the lines \<open>flask==2.0.0\<close>, an empty line,
  \<open># comment\<close> and \<open>-r other.txt\<close>, \<open>main\<close> prints the header and two diagnostics,
  both about \<open>-r other.txt\<close>: the unpinned-version Warning (the line has none of
  \<open>==\<close>, \<open>>=\<close>, \<open><=\<close>, \<open>~=\<close>), then the Info about the included file. The line
  \<open>flask==2.0.0\<close> produces nothing, and the exit code is 1.
\<close>

theorem example_two_run:
  "main rt example_files ''pip'' ''requirements.txt'' =
   ([''Linting results:'',
     ''Warning: Dependency '-r other.txt' does not have a specific version specified. Consider using '==' for reproducible builds.'',
     ''Info: Dependency includes another requirement file '-r other.txt'.  Verify included files are present.''],
    1)"
  by (simp add: main_def init_def load_example lint_example unpinned_warning_def
      include_info_def)

section \<open>Comment lines of a pip file\<close>

text \<open>
  C2 says that a line is dropped when, after trimming, it starts with \<open>#\<close>. The
  loader trims for the emptiness test and for the value it keeps, but tests the
  untrimmed line for \<open>#\<close>: a comment behind two spaces is kept as the dependency
  \<open># comment\<close>, and the evaluation reports it as unpinned.
\<close>

theorem indented_comment_is_kept:
  "load_manifest rt [''requirements.txt'' \<mapsto> Readable indented_comment]
     ''pip'' ''requirements.txt'' =
   Inr (PDict [(''dependencies'', PList [PStr ''# comment''])]) \<and>
   load_and_lint rt [''requirements.txt'' \<mapsto> Readable indented_comment]
     ''pip'' ''requirements.txt'' =
   Inr [''Warning: Dependency '# comment' does not have a specific version specified. Consider using '==' for reproducible builds.'']"
  by (simp add: load_and_lint_def init_def load_manifest_def load_body_def readlines_def
      indented_comment_def strip_def lstrip_def rstrip_def isspace_def startswith_def
      lint_def lint_pip_def no_version_operator_def unpinned_warning_def)

section \<open>An unsupported manifest type\<close>

text \<open>
  C7 says that a type outside npm, pip and maven fails with a typed error of its own.
  The body of the \<open>try\<close> raises \<open>ValueError\<close> for it, but inside the \<open>try\<close>, whose
  \<open>except Exception\<close> replaces it by the generic \<open>Exception\<close> of every other loading
  error; \<open>main\<close> then reports an unexpected error (the exit code is 1).
\<close>

theorem unsupported_type_is_rewrapped:
  "load_body rt (Readable []) ''gradle'' =
     Inl (ValueError ''Unsupported manifest type: gradle'') \<and>
   load_manifest rt [''build.gradle'' \<mapsto> Readable []] ''gradle'' ''build.gradle'' =
     Inl (Exception ''Error loading manifest file: build.gradle'') \<and>
   main rt [''build.gradle'' \<mapsto> Readable []] ''gradle'' ''build.gradle'' =
     ([''An unexpected error occurred: Error loading manifest file: build.gradle''], 1)"
  by (simp add: main_def init_def load_manifest_def load_body_def)

section \<open>The maven stub\<close>

text \<open>
  C8: for every path that exists, whatever it holds, loading as maven returns the
  empty manifest, and the evaluation of a maven linter (with any data) returns exactly
  the one fixed placeholder message; so does loading followed by evaluating.
\<close>

theorem maven_stub:
  assumes "fs mfile = Some node"
  shows "load_manifest rt fs ''maven'' mfile = Inr (PDict []) \<and>
         lint rt \<lparr>manifest_type = ''maven'', manifest_file = mfile, manifest_data = data\<rparr> =
           Inr [''Maven linting is not fully implemented yet.  This is a placeholder.''] \<and>
         load_and_lint rt fs ''maven'' mfile =
           Inr [''Maven linting is not fully implemented yet.  This is a placeholder.'']"
  using assms
  by (simp add: load_and_lint_def init_def load_manifest_def load_body_def lint_def
      lint_maven_def)

theorem maven_stub_witness:
  "[''pom.xml'' \<mapsto> Unreadable] ''pom.xml'' = Some Unreadable \<and>
   load_manifest sample_runtime [''pom.xml'' \<mapsto> Unreadable] ''maven'' ''pom.xml'' =
     Inr (PDict []) \<and>
   lint sample_runtime
     \<lparr>manifest_type = ''maven'', manifest_file = ''pom.xml'', manifest_data = PDict []\<rparr> =
     Inr [''Maven linting is not fully implemented yet.  This is a placeholder.''] \<and>
   load_and_lint sample_runtime [''pom.xml'' \<mapsto> Unreadable] ''maven'' ''pom.xml'' =
     Inr [''Maven linting is not fully implemented yet.  This is a placeholder.'']"
  using maven_stub [of "[''pom.xml'' \<mapsto> Unreadable]" "''pom.xml''" Unreadable
      sample_runtime "PDict []"]
  by simp

section \<open>Substrings\<close>

lemma str_in_iff: "str_in needle hay \<longleftrightarrow> (\<exists>ps ss. hay = ps @ needle @ ss)"
proof (induction hay)
  case Nil
  then show ?case by auto
next
  case (Cons c cs)
  show ?case
  proof
    assume "str_in needle (c # cs)"
    then consider "prefix needle (c # cs)" | "str_in needle cs" by auto
    then show "\<exists>ps ss. c # cs = ps @ needle @ ss"
    proof cases
      case 1
      then obtain ss where "c # cs = needle @ ss" by (auto simp: prefix_def)
      then have "c # cs = [] @ needle @ ss" by simp
      then show ?thesis by blast
    next
      case 2
      with Cons.IH obtain ps ss where "cs = ps @ needle @ ss" by blast
      then have "c # cs = (c # ps) @ needle @ ss" by simp
      then show ?thesis by blast
    qed
  next
    assume "\<exists>ps ss. c # cs = ps @ needle @ ss"
    then obtain ps ss where eq: "c # cs = ps @ needle @ ss" by blast
    show "str_in needle (c # cs)"
    proof (cases ps)
      case Nil
      with eq have "prefix needle (c # cs)" by (simp add: prefix_def)
      then show ?thesis by simp
    next
      case (Cons p ps')
      with eq have "cs = ps' @ needle @ ss" by simp
      with Cons.IH have "str_in needle cs" by blast
      then show ?thesis by simp
    qed
  qed
qed

lemma star_in_str: "str_in ''*'' s \<longleftrightarrow> CHR ''*'' \<in> set s"
  by (induction s) auto

lemma str_in_sublist: "str_in needle hay = sublist needle hay"
  by (simp add: str_in_iff sublist_def)

lemma no_version_operator_str:
  "no_version_operator (PStr line) =
     Inr (\<not> (str_in ''=='' line \<or> str_in ''>='' line \<or> str_in ''<='' line \<or> str_in ''~='' line))"
  by (simp add: no_version_operator_def)

section \<open>The pip rules, line by line\<close>

lemma pip_loop_strs:
  "pip_loop rt (map PStr lines) messages =
     Inr (messages @ concat (map (line_diagnostics rt) lines))"
  by (induction lines arbitrary: messages)
     (simp_all add: no_version_operator_str line_diagnostics_def startswith_def)

text \<open>
  C3: the evaluation of the lines a pip load kept is the concatenation, in file order,
  of each line's diagnostics. A line gives the unpinned-version Warning (the text
  below, which recommends \<open>==\<close>) exactly when none of \<open>==\<close>, \<open>>=\<close>, \<open><=\<close>, \<open>~=\<close>
  occurs in it as a substring, and then, independently, the Info about an included
  requirement file exactly when \<open>-r\<close> is a prefix of it: zero, one or two diagnostics,
  and never the Warning for a line with one of the four operators.
\<close>

theorem pip_line_checks:
  "lint_pip rt \<lparr>manifest_type = mtype, manifest_file = mfile,
      manifest_data = PDict [(''dependencies'', PList (map PStr lines))]\<rparr> =
   Inr (concat (map (\<lambda>line.
     (if sublist ''=='' line \<or> sublist ''>='' line \<or> sublist ''<='' line \<or>
         sublist ''~='' line
      then []
      else [''Warning: Dependency '' @ [CHR 0x27] @ line @ [CHR 0x27] @
            '' does not have a specific version specified. Consider using '==' for reproducible builds.'']) @
     (if prefix ''-r'' line
      then [''Info: Dependency includes another requirement file '' @ [CHR 0x27] @ line @
            [CHR 0x27] @ ''.  Verify included files are present.'']
      else [])) lines))"
proof -
  have "line_diagnostics rt = (\<lambda>line.
     (if sublist ''=='' line \<or> sublist ''>='' line \<or> sublist ''<='' line \<or>
         sublist ''~='' line
      then []
      else [''Warning: Dependency '' @ [CHR 0x27] @ line @ [CHR 0x27] @
            '' does not have a specific version specified. Consider using '==' for reproducible builds.'']) @
     (if prefix ''-r'' line
      then [''Info: Dependency includes another requirement file '' @ [CHR 0x27] @ line @
            [CHR 0x27] @ ''.  Verify included files are present.'']
      else []))"
    by (rule ext)
       (simp add: line_diagnostics_def str_in_sublist unpinned_warning_def include_info_def)
  then show ?thesis
    by (simp add: lint_pip_def pip_loop_strs)
qed

section \<open>The npm rules on a well-shaped manifest\<close>

lemma wildcard_loop_strs:
  "list_all (\<lambda>kv. is_str (snd kv)) items \<Longrightarrow>
   wildcard_loop rt items messages = Inr (messages @ wildcard_warnings rt items)"
proof (induction items arbitrary: messages)
  case Nil
  show ?case by (simp add: wildcard_warnings_def)
next
  case (Cons kv items)
  obtain dep v where kv: "kv = (dep, v)" by (cases kv)
  from Cons.prems kv obtain s where v: "v = PStr s" by (cases v) simp_all
  from Cons.prems have rest: "list_all (\<lambda>kv. is_str (snd kv)) items" by simp
  show ?case
    using Cons.IH [OF rest] by (simp add: kv v star_in_str wildcard_warnings_def)
qed

lemma group_ok_cases:
  assumes "group_ok d key"
  obtains (absent) "map_of d key = None" "key \<notin> fst ` set d"
  | (present) g where "map_of d key = Some (PDict g)" "key \<in> fst ` set d"
      "list_all (\<lambda>kv. is_str (snd kv)) g"
proof (cases "map_of d key")
  case None
  then show ?thesis using absent by (simp add: map_of_eq_None_iff)
next
  case (Some v)
  with assms have sv: "string_valued v" by (simp add: group_ok_def)
  then obtain g where g: "v = PDict g" by (cases v) simp_all
  from Some have "key \<in> fst ` set d" by (metis map_of_eq_None_iff option.distinct(1))
  with Some g sv show ?thesis using present by simp
qed

lemma group_scan:
  assumes "group_ok d key"
  shows "dep_type_loop rt (PDict d) (key # rest) messages =
         dep_type_loop rt (PDict d) rest
           (messages @ wildcard_warnings rt (group_items (PDict d) key))"
  using assms
proof (cases rule: group_ok_cases)
  case absent
  then show ?thesis by (simp add: wildcard_warnings_def)
next
  case (present g)
  then show ?thesis by (simp add: wildcard_loop_strs)
qed

lemma overlap_check_shaped:
  assumes "group_ok d ''dependencies''" and "group_ok d ''devDependencies''"
  shows "overlap_check rt (PDict d) messages =
         Inr (messages @
           (if common_keys (PDict d) \<noteq> {}
            then [overlap_warning (set_order rt (common_keys (PDict d)))] else []))"
  using assms(1)
proof (cases rule: group_ok_cases)
  case absent
  then show ?thesis by (simp add: overlap_check_def common_keys_def group_keys_def)
next
  case deps: (present g1)
  from assms(2) show ?thesis
  proof (cases rule: group_ok_cases)
    case absent
    with deps show ?thesis by (simp add: overlap_check_def common_keys_def group_keys_def)
  next
    case (present g2)
    with deps show ?thesis
      by (simp add: overlap_check_def common_keys_def group_keys_def Let_def)
  qed
qed

lemma lint_npm_shaped:
  assumes "npm_shape (manifest_data self)"
  shows "lint_npm rt self =
     Inr (field_warning (manifest_data self) ''description'' missing_description @
          field_warning (manifest_data self) ''repository'' missing_repository @
          (if common_keys (manifest_data self) \<noteq> {}
           then [overlap_warning (set_order rt (common_keys (manifest_data self)))] else []) @
          wildcard_warnings rt (group_items (manifest_data self) ''dependencies'') @
          wildcard_warnings rt (group_items (manifest_data self) ''devDependencies''))"
proof -
  from assms obtain d where d: "manifest_data self = PDict d"
    by (cases "manifest_data self") simp_all
  with assms have ok: "group_ok d ''dependencies''" "group_ok d ''devDependencies''"
    by simp_all
  show ?thesis
    unfolding lint_npm_def d
    by (simp add: Let_def field_warning_def overlap_check_shaped [OF ok]
        group_scan [OF ok(1)] group_scan [OF ok(2)] del: dep_type_loop.simps(2))
qed


lemma not_overlap_simps:
  "\<not> is_overlap_warning missing_description"
  "\<not> is_overlap_warning missing_repository"
  "is_overlap_warning (overlap_warning names)"
  "\<not> is_overlap_warning (wildcard_warning rt dep v)"
  by (simp_all add: is_overlap_warning_def missing_description_def missing_repository_def
      overlap_warning_def wildcard_warning_def)

lemma wildcard_simps:
  "\<not> is_wildcard_warning missing_description"
  "\<not> is_wildcard_warning missing_repository"
  "\<not> is_wildcard_warning (overlap_warning names)"
  "is_wildcard_warning (wildcard_warning rt dep v)"
  by (simp_all add: is_wildcard_warning_def missing_description_def missing_repository_def
      overlap_warning_def wildcard_warning_def)

lemma filter_field_warning:
  "filter is_overlap_warning (field_warning data ''description'' missing_description) = []"
  "filter is_overlap_warning (field_warning data ''repository'' missing_repository) = []"
  "filter is_wildcard_warning (field_warning data ''description'' missing_description) = []"
  "filter is_wildcard_warning (field_warning data ''repository'' missing_repository) = []"
  by (simp_all add: field_warning_def not_overlap_simps wildcard_simps split: sum.splits)

lemma filter_wildcard_warnings:
  "filter is_overlap_warning (wildcard_warnings rt items) = []"
  "filter is_wildcard_warning (wildcard_warnings rt items) = wildcard_warnings rt items"
  by (simp_all add: wildcard_warnings_def filter_map o_def not_overlap_simps wildcard_simps)

lemma example_one_run:
  "main (sample_runtime\<lparr>json_load := (\<lambda>content. Inr example_package)\<rparr>)
     [''package.json'' \<mapsto> Readable content] ''npm'' ''package.json'' =
   ([''Linting results:'',
     ''Warning: 'description' field is missing in package.json'',
     ''Warning: 'repository' field is missing in package.json'',
     ''Warning: The following dependencies exist in both 'dependencies' and 'devDependencies': a'',
     ''Warning: Dependency a has a wildcard version: *''], 1)"
  by (simp add: main_def init_def load_manifest_def load_body_def sample_runtime_def
      example_package_def lint_def lint_npm_def overlap_check_def Let_def
      missing_description_def missing_repository_def overlap_warning_def
      wildcard_warning_def)

lemma join_concat: "join sep (n # ns) = n @ concat (map (\<lambda>x. sep @ x) ns)"
  by (induction ns arbitrary: n) simp_all

lemma group_keys_set:
  "set (group_keys (PDict d) key) =
     (case map_of d key of Some (PDict g) \<Rightarrow> fst ` set g | _ \<Rightarrow> {})"
  by (simp add: group_keys_def split: option.splits pyval.splits)

text \<open>
  C4: on a well-shaped npm manifest the evaluation succeeds, and among its messages
  there is exactly one overlap Warning when the key sets of \<open>dependencies\<close> and
  \<open>devDependencies\<close> intersect (an absent group has no keys), and none otherwise. The
  Warning is the fixed text followed by the names, joined by a comma and a space; the
  names are the iteration of the intersection of the two key sets: every common key
  once, and nothing else.
\<close>

theorem npm_overlap_warning:
  assumes "npm_shape (PDict d)"
    and "enumerates (set_order rt)
           ((case map_of d ''dependencies'' of Some (PDict g) \<Rightarrow> fst ` set g | _ \<Rightarrow> {}) \<inter>
            (case map_of d ''devDependencies'' of Some (PDict g) \<Rightarrow> fst ` set g | _ \<Rightarrow> {}))"
  shows "\<exists>out names.
           lint_npm rt \<lparr>manifest_type = mtype, manifest_file = mfile,
             manifest_data = PDict d\<rparr> = Inr out \<and>
           names = set_order rt
             ((case map_of d ''dependencies'' of Some (PDict g) \<Rightarrow> fst ` set g | _ \<Rightarrow> {}) \<inter>
              (case map_of d ''devDependencies'' of Some (PDict g) \<Rightarrow> fst ` set g | _ \<Rightarrow> {})) \<and>
           set names =
             (case map_of d ''dependencies'' of Some (PDict g) \<Rightarrow> fst ` set g | _ \<Rightarrow> {}) \<inter>
             (case map_of d ''devDependencies'' of Some (PDict g) \<Rightarrow> fst ` set g | _ \<Rightarrow> {}) \<and>
           distinct names \<and>
           filter is_overlap_warning out =
             (case names of
                [] \<Rightarrow> []
              | n # ns \<Rightarrow>
                  [''Warning: The following dependencies exist in both 'dependencies' and 'devDependencies': ''
                   @ n @ concat (map (\<lambda>x. '', '' @ x) ns)])"
proof -
  let ?self = "\<lparr>manifest_type = mtype, manifest_file = mfile, manifest_data = PDict d\<rparr>"
  let ?C = "(case map_of d ''dependencies'' of Some (PDict g) \<Rightarrow> fst ` set g | _ \<Rightarrow> {}) \<inter>
            (case map_of d ''devDependencies'' of Some (PDict g) \<Rightarrow> fst ` set g | _ \<Rightarrow> {})"
  let ?names = "set_order rt ?C"
  have C: "common_keys (PDict d) = ?C"
    by (simp only: common_keys_def group_keys_set)
  from assms(2) have names: "set ?names = ?C" "distinct ?names"
    by (simp_all add: enumerates_def)
  have shape: "npm_shape (manifest_data ?self)" using assms(1) by simp
  have shown: "(if ?C = {} then [] else [overlap_warning ?names]) =
        (case ?names of
                [] \<Rightarrow> []
              | n # ns \<Rightarrow>
                  [''Warning: The following dependencies exist in both 'dependencies' and 'devDependencies': ''
                   @ n @ concat (map (\<lambda>x. '', '' @ x) ns)])"
  proof (cases ?names)
    case Nil
    with names(1) show ?thesis by simp
  next
    case (Cons n ns)
    with names(1) have ne: "?C \<noteq> {}" by auto
    have "[overlap_warning ?names] =
      [''Warning: The following dependencies exist in both 'dependencies' and 'devDependencies': ''
       @ n @ concat (map (\<lambda>x. '', '' @ x) ns)]"
      unfolding Cons overlap_warning_def join_concat by (rule refl)
    then show ?thesis by (simp only: ne if_False Cons list.case)
  qed
  let ?out = "field_warning (PDict d) ''description'' missing_description @
           field_warning (PDict d) ''repository'' missing_repository @
           (if ?C \<noteq> {} then [overlap_warning ?names] else []) @
           wildcard_warnings rt (group_items (PDict d) ''dependencies'') @
           wildcard_warnings rt (group_items (PDict d) ''devDependencies'')"
  have run: "lint_npm rt ?self = Inr ?out"
    using lint_npm_shaped [OF shape, of rt] by (simp only: linter.select_convs C)
  have "filter is_overlap_warning ?out = (if ?C = {} then [] else [overlap_warning ?names])"
    by (simp add: filter_field_warning filter_wildcard_warnings not_overlap_simps)
  from this shown have filtered: "filter is_overlap_warning ?out =
        (case ?names of
                [] \<Rightarrow> []
              | n # ns \<Rightarrow>
                  [''Warning: The following dependencies exist in both 'dependencies' and 'devDependencies': ''
                   @ n @ concat (map (\<lambda>x. '', '' @ x) ns)])"
    by (rule trans)
  show ?thesis
  proof (intro exI conjI)
    show "lint_npm rt ?self = Inr ?out" by (rule run)
    show "?names = set_order rt ?C" by (rule refl)
    show "set ?names = ?C" by (rule names(1))
    show "distinct ?names" by (rule names(2))
    show "filter is_overlap_warning ?out =
        (case ?names of
                [] \<Rightarrow> []
              | n # ns \<Rightarrow>
                  [''Warning: The following dependencies exist in both 'dependencies' and 'devDependencies': ''
                   @ n @ concat (map (\<lambda>x. '', '' @ x) ns)])"
      by (rule filtered)
  qed
qed


theorem npm_overlap_warning_witness:
  "npm_shape shared_package \<and>
   enumerates (set_order sample_runtime) {''a'', ''b''} \<and>
   (\<exists>out.
      lint_npm sample_runtime \<lparr>manifest_type = ''npm'', manifest_file = ''package.json'',
        manifest_data = shared_package\<rparr> = Inr out \<and>
      filter is_overlap_warning out =
        [''Warning: The following dependencies exist in both 'dependencies' and 'devDependencies': a, b''])"
proof -
  let ?d = "[(''description'', PStr ''x''), (''repository'', PStr ''y''),
            (''dependencies'', PDict [(''a'', PStr ''1.0.0''), (''b'', PStr ''2.0.0'')]),
            (''devDependencies'', PDict [(''b'', PStr ''2.0.0''), (''a'', PStr ''1.0.0'')])]"
  have shape: "npm_shape (PDict ?d)" by (simp add: group_ok_def)
  have common: "(case map_of ?d ''dependencies'' of Some (PDict g) \<Rightarrow> fst ` set g | _ \<Rightarrow> {}) \<inter>
      (case map_of ?d ''devDependencies'' of Some (PDict g) \<Rightarrow> fst ` set g | _ \<Rightarrow> {}) =
      {''a'', ''b''}"
    by auto
  have names: "set_order sample_runtime {''a'', ''b''} = [''a'', ''b'']"
    by (simp add: sample_runtime_def)
  have order: "enumerates (set_order sample_runtime) {''a'', ''b''}"
    by (simp add: enumerates_def names)
  from order have order': "enumerates (set_order sample_runtime)
      ((case map_of ?d ''dependencies'' of Some (PDict g) \<Rightarrow> fst ` set g | _ \<Rightarrow> {}) \<inter>
       (case map_of ?d ''devDependencies'' of Some (PDict g) \<Rightarrow> fst ` set g | _ \<Rightarrow> {}))"
    by (simp only: common)
  from npm_overlap_warning [OF shape order', of "''npm''" "''package.json''"]
  obtain out where "lint_npm sample_runtime \<lparr>manifest_type = ''npm'',
        manifest_file = ''package.json'', manifest_data = PDict ?d\<rparr> = Inr out"
    and "filter is_overlap_warning out =
        [''Warning: The following dependencies exist in both 'dependencies' and 'devDependencies': a, b'']"
    unfolding common names by auto
  with shape order show ?thesis unfolding shared_package_def by blast
qed



section \<open>Totality of the evaluation\<close>

lemma strs_are_lines: "list_all is_str xs \<Longrightarrow> \<exists>lines. xs = map PStr lines"
proof (induction xs)
  case Nil
  show ?case by simp
next
  case (Cons x xs)
  then obtain lines where "xs = map PStr lines" by auto
  moreover from Cons.prems obtain s where "x = PStr s" by (cases x) simp_all
  ultimately have "x # xs = map PStr (s # lines)" by simp
  then show ?case by (rule exI)
qed

text \<open>
  C6: when the data has the shape of the manifest type (npm, pip or maven), the
  evaluation raises nothing and returns a list of diagnostics.
\<close>

theorem lint_total_on_matching_shape:
  assumes "shape_matches (manifest_type self) (manifest_data self)"
  shows "\<exists>msgs. lint rt self = Inr msgs"
proof -
  from assms consider
      (npm) "manifest_type self = ''npm''" "npm_shape (manifest_data self)"
    | (pip) "manifest_type self = ''pip''" "pip_shape (manifest_data self)"
    | (maven) "manifest_type self = ''maven''"
    by (auto simp: shape_matches_def)
  then show ?thesis
  proof cases
    case npm
    then show ?thesis by (simp add: lint_def lint_npm_shaped)
  next
    case pip
    from pip(2) obtain xs where data: "manifest_data self = PDict [(''dependencies'', PList xs)]"
      and strs: "list_all is_str xs"
      by (auto elim: pip_shape.elims)
    from strs_are_lines [OF strs] obtain lines where "xs = map PStr lines" ..
    with pip(1) data show ?thesis by (simp add: lint_def lint_pip_def pip_loop_strs)
  next
    case maven
    then show ?thesis by (simp add: lint_def lint_maven_def)
  qed
qed


theorem lint_total_on_matching_shape_witness:
  "shape_matches ''pip'' (PDict [(''dependencies'', PList [PStr ''flask''])]) \<and>
   (\<exists>msgs. lint sample_runtime \<lparr>manifest_type = ''pip'', manifest_file = ''requirements.txt'',
       manifest_data = PDict [(''dependencies'', PList [PStr ''flask''])]\<rparr> = Inr msgs)"
proof -
  let ?self = "\<lparr>manifest_type = ''pip'', manifest_file = ''requirements.txt'',
       manifest_data = PDict [(''dependencies'', PList [PStr ''flask''])]\<rparr>"
  have shape: "shape_matches (manifest_type ?self) (manifest_data ?self)"
    by (simp add: shape_matches_def)
  from lint_total_on_matching_shape [OF shape, of sample_runtime] shape show ?thesis by simp
qed

section \<open>A field that is present but falsy\<close>

lemma in_keys_delete:
  "k \<noteq> key \<Longrightarrow> (k \<in> fst ` set (AList.delete key d)) = (k \<in> fst ` set d)"
  by (induction d) auto

lemma py_ops_delete:
  assumes "k \<noteq> key"
  shows "py_contains k (PDict (AList.delete key d)) = py_contains k (PDict d)"
    and "py_getitem (PDict (AList.delete key d)) k = py_getitem (PDict d) k"
    and "py_get (PDict (AList.delete key d)) k = py_get (PDict d) k"
  using assms by (simp_all add: in_keys_delete)

lemma overlap_check_delete:
  assumes "''dependencies'' \<noteq> key" and "''devDependencies'' \<noteq> key"
  shows "overlap_check rt (PDict (AList.delete key d)) messages =
         overlap_check rt (PDict d) messages"
  unfolding overlap_check_def py_ops_delete [OF assms(1)] py_ops_delete [OF assms(2)]
  by (rule refl)

lemma dep_type_loop_delete:
  "key \<notin> set dep_types \<Longrightarrow>
   dep_type_loop rt (PDict (AList.delete key d)) dep_types messages =
   dep_type_loop rt (PDict d) dep_types messages"
proof (induction dep_types arbitrary: messages)
  case Nil
  show ?case by simp
next
  case (Cons dep_type rest)
  then have ne: "dep_type \<noteq> key" and rest: "key \<notin> set rest" by auto
  show ?case
    unfolding dep_type_loop.simps py_ops_delete [OF ne] Cons.IH [OF rest]
    by (rule refl)
qed

lemma lint_npm_delete_falsy:
  assumes "key = ''description'' \<or> key = ''repository''"
    and "map_of d key = Some v" and "\<not> truthy v"
  shows "lint_npm rt \<lparr>manifest_type = mtype, manifest_file = mfile,
           manifest_data = PDict d\<rparr> =
         lint_npm rt \<lparr>manifest_type = mtype, manifest_file = mfile,
           manifest_data = PDict (AList.delete key d)\<rparr>"
proof -
  from assms(1) have keys: "''dependencies'' \<noteq> key" "''devDependencies'' \<noteq> key"
    "key \<notin> set [''dependencies'', ''devDependencies'']"
    by auto
  have gone: "map_of (AList.delete key d) key = None"
    by (simp add: map_of_eq_None_iff delete_notin_dom)
  from assms(1) show ?thesis
  proof
    assume k: "key = ''description''"
    then have other: "map_of (AList.delete key d) ''repository'' = map_of d ''repository''"
      by simp
    show ?thesis
      using assms(2,3) gone other
      unfolding lint_npm_def
      by (simp add: k [symmetric] overlap_check_delete [OF keys(1,2)]
          dep_type_loop_delete [OF keys(3)] Let_def del: dep_type_loop.simps
          cong: sum.case_cong)
  next
    assume k: "key = ''repository''"
    then have other: "map_of (AList.delete key d) ''description'' = map_of d ''description''"
      by simp
    show ?thesis
      using assms(2,3) gone other
      unfolding lint_npm_def
      by (simp add: k [symmetric] overlap_check_delete [OF keys(1,2)]
          dep_type_loop_delete [OF keys(3)] Let_def del: dep_type_loop.simps
          cong: sum.case_cong)
  qed
qed

text \<open>
  C10: the two field checks test the truth value of what \<open>get\<close> returns. When
  \<open>description\<close> (or \<open>repository\<close>) is present with a falsy value, the evaluation of a
  well-shaped npm manifest is the evaluation of the same manifest without that key,
  and the missing-field Warning of the key is among its messages. The empty string,
  \<open>None\<close>, \<open>False\<close>, \<open>0\<close>, the empty list and the empty \<open>dict\<close> are falsy.
\<close>

theorem falsy_field_counts_as_missing:
  assumes "key = ''description'' \<or> key = ''repository''"
    and "map_of d key = Some v" and "\<not> truthy v"
    and "npm_shape (PDict d)"
  shows "lint_npm rt \<lparr>manifest_type = mtype, manifest_file = mfile,
           manifest_data = PDict d\<rparr> =
         lint_npm rt \<lparr>manifest_type = mtype, manifest_file = mfile,
           manifest_data = PDict (AList.delete key d)\<rparr> \<and>
         (\<exists>out. lint_npm rt \<lparr>manifest_type = mtype, manifest_file = mfile,
                  manifest_data = PDict d\<rparr> = Inr out \<and>
                ''Warning: '' @ [CHR 0x27] @ key @ [CHR 0x27] @
                  '' field is missing in package.json'' \<in> set out) \<and>
         list_all (\<lambda>x. \<not> truthy x)
           [PStr [], PNone, PBool False, PInt 0, PList [], PDict []]"
proof -
  let ?self = "\<lparr>manifest_type = mtype, manifest_file = mfile, manifest_data = PDict d\<rparr>"
  have shape: "npm_shape (manifest_data ?self)" using assms(4) by simp
  have warned: "''Warning: '' @ [CHR 0x27] @ key @ [CHR 0x27] @
      '' field is missing in package.json'' \<in>
      set (field_warning (PDict d) ''description'' missing_description @
           field_warning (PDict d) ''repository'' missing_repository)"
    using assms(1,2,3)
    by (auto simp: field_warning_def missing_description_def missing_repository_def)
  from lint_npm_shaped [OF shape, of rt] warned
  have "\<exists>out. lint_npm rt ?self = Inr out \<and>
          ''Warning: '' @ [CHR 0x27] @ key @ [CHR 0x27] @
            '' field is missing in package.json'' \<in> set out"
    by auto
  with lint_npm_delete_falsy [OF assms(1,2,3)] show ?thesis by simp
qed

theorem falsy_field_counts_as_missing_witness:
  "(''description'' = ''description'' \<or> ''description'' = ''repository'') \<and>
   map_of [(''description'', PStr []), (''repository'', PStr ''y'')] ''description'' =
     Some (PStr []) \<and>
   \<not> truthy (PStr []) \<and>
   npm_shape (PDict [(''description'', PStr []), (''repository'', PStr ''y'')]) \<and>
   lint_npm sample_runtime \<lparr>manifest_type = ''npm'', manifest_file = ''package.json'',
     manifest_data = PDict [(''description'', PStr []), (''repository'', PStr ''y'')]\<rparr> =
   lint_npm sample_runtime \<lparr>manifest_type = ''npm'', manifest_file = ''package.json'',
     manifest_data = PDict [(''repository'', PStr ''y'')]\<rparr> \<and>
   lint_npm sample_runtime \<lparr>manifest_type = ''npm'', manifest_file = ''package.json'',
     manifest_data = PDict [(''description'', PStr []), (''repository'', PStr ''y'')]\<rparr> =
   Inr [''Warning: 'description' field is missing in package.json'']"
proof -
  let ?d = "[(''description'', PStr []), (''repository'', PStr ''y'')]"
  have k: "''description'' = ''description'' \<or> ''description'' = ''repository''" by simp
  have m: "map_of ?d ''description'' = Some (PStr [])" by simp
  have f: "\<not> truthy (PStr [])" by simp
  have s: "npm_shape (PDict ?d)" by (simp add: group_ok_def)
  have run: "lint_npm sample_runtime \<lparr>manifest_type = ''npm'',
      manifest_file = ''package.json'', manifest_data = PDict [(''repository'', PStr ''y'')]\<rparr> =
    Inr [''Warning: 'description' field is missing in package.json'']"
    by (simp add: lint_npm_def overlap_check_def missing_description_def)
  from falsy_field_counts_as_missing [OF k m f s, of sample_runtime "''npm''" "''package.json''"]
    run m f s
  show ?thesis by simp
qed

section \<open>Two evaluations of one manifest\<close>

lemma wildcard_warnings_any_runtime:
  "wildcard_warnings rt1 items = wildcard_warnings rt2 items"
proof (induction items)
  case Nil
  show ?case by (simp add: wildcard_warnings_def)
next
  case (Cons kv items)
  then show ?case
    by (cases "snd kv") (simp_all add: wildcard_warnings_def wildcard_warning_def)
qed

lemma line_diagnostics_any_runtime: "line_diagnostics rt1 = line_diagnostics rt2"
  by (rule ext) (simp add: line_diagnostics_def unpinned_warning_def include_info_def)

text \<open>
  C9, as the specification states it: two evaluations of the same manifest give the
  same diagnostics. The names of the overlap Warning come out in the iteration order
  of a set, which the program leaves to the interpreter: both orders of \<open>a\<close> and \<open>b\<close>
  enumerate the common keys, and the two evaluations differ.
\<close>

theorem lint_depends_on_set_order:
  "enumerates (set_order sample_runtime) (common_keys shared_package) \<and>
   enumerates (set_order reversed_runtime) (common_keys shared_package) \<and>
   lint sample_runtime \<lparr>manifest_type = ''npm'', manifest_file = ''package.json'',
     manifest_data = shared_package\<rparr> \<noteq>
   lint reversed_runtime \<lparr>manifest_type = ''npm'', manifest_file = ''package.json'',
     manifest_data = shared_package\<rparr>"
proof -
  let ?self = "\<lparr>manifest_type = ''npm'', manifest_file = ''package.json'',
     manifest_data = shared_package\<rparr>"
  have common: "common_keys shared_package = {''a'', ''b''}"
    by (auto simp: common_keys_def group_keys_def shared_package_def)
  have o1: "set_order sample_runtime {''a'', ''b''} = [''a'', ''b'']"
    by (simp add: sample_runtime_def)
  have o2: "set_order reversed_runtime {''a'', ''b''} = [''b'', ''a'']"
    by (simp add: reversed_runtime_def)
  have e1: "enumerates (set_order sample_runtime) (common_keys shared_package)"
    by (simp add: enumerates_def common o1)
  have e2: "enumerates (set_order reversed_runtime) (common_keys shared_package)"
    by (auto simp: enumerates_def common o2)
  have shape: "npm_shape (manifest_data ?self)"
    by (simp add: shared_package_def group_ok_def)
  have "lint sample_runtime ?self \<noteq> lint reversed_runtime ?self"
    by (simp add: lint_def lint_npm_shaped [OF shape] common o1 o2 overlap_warning_def)
  with e1 e2 show ?thesis by simp
qed

text \<open>
  C9, amended: two evaluations of the same well-shaped manifest under the same type
  give the same diagnostics, in the same order, whenever they iterate the set of the
  keys common to \<open>dependencies\<close> and \<open>devDependencies\<close> in the same order (nothing is
  asked when that set is empty, as it is for pip and maven). Nothing else of the
  interpreter matters.
\<close>

theorem lint_same_set_order:
  assumes "shape_matches (manifest_type self) (manifest_data self)"
    and "common_keys (manifest_data self) \<noteq> {} \<Longrightarrow>
         set_order rt1 (common_keys (manifest_data self)) =
         set_order rt2 (common_keys (manifest_data self))"
  shows "lint rt1 self = lint rt2 self"
proof -
  from assms(1) consider
      (npm) "manifest_type self = ''npm''" "npm_shape (manifest_data self)"
    | (pip) "manifest_type self = ''pip''" "pip_shape (manifest_data self)"
    | (maven) "manifest_type self = ''maven''"
    by (auto simp: shape_matches_def)
  then show ?thesis
  proof cases
    case npm
    have "(if common_keys (manifest_data self) \<noteq> {}
           then [overlap_warning (set_order rt1 (common_keys (manifest_data self)))] else []) =
          (if common_keys (manifest_data self) \<noteq> {}
           then [overlap_warning (set_order rt2 (common_keys (manifest_data self)))] else [])"
      using assms(2) by simp
    with npm show ?thesis
      by (simp add: lint_def lint_npm_shaped
          wildcard_warnings_any_runtime [of rt1 _ rt2])
  next
    case pip
    from pip(2) obtain xs where data: "manifest_data self = PDict [(''dependencies'', PList xs)]"
      and strs: "list_all is_str xs"
      by (auto elim: pip_shape.elims)
    from strs_are_lines [OF strs] obtain lines where "xs = map PStr lines" ..
    with pip(1) data show ?thesis
      by (simp add: lint_def lint_pip_def pip_loop_strs
          line_diagnostics_any_runtime [of rt1 rt2])
  next
    case maven
    then show ?thesis by (simp add: lint_def lint_maven_def)
  qed
qed

theorem lint_same_set_order_witness:
  "shape_matches ''npm'' shared_package \<and>
   set_order sample_runtime (common_keys shared_package) =
     set_order second_runtime (common_keys shared_package) \<and>
   to_str sample_runtime \<noteq> to_str second_runtime \<and>
   lint sample_runtime \<lparr>manifest_type = ''npm'', manifest_file = ''package.json'',
     manifest_data = shared_package\<rparr> =
   lint second_runtime \<lparr>manifest_type = ''npm'', manifest_file = ''package.json'',
     manifest_data = shared_package\<rparr>"
proof -
  let ?self = "\<lparr>manifest_type = ''npm'', manifest_file = ''package.json'',
     manifest_data = shared_package\<rparr>"
  have shape: "shape_matches (manifest_type ?self) (manifest_data ?self)"
    by (simp add: shape_matches_def shared_package_def group_ok_def)
  have common: "common_keys shared_package = {''a'', ''b''}"
    by (auto simp: common_keys_def group_keys_def shared_package_def)
  have same: "set_order sample_runtime (common_keys (manifest_data ?self)) =
      set_order second_runtime (common_keys (manifest_data ?self))"
    by (simp add: common sample_runtime_def second_runtime_def)
  have differ: "to_str sample_runtime \<noteq> to_str second_runtime"
  proof
    assume "to_str sample_runtime = to_str second_runtime"
    then have "to_str sample_runtime PNone = to_str second_runtime PNone" by simp
    then show False by (simp add: sample_runtime_def second_runtime_def)
  qed
  from lint_same_set_order [OF shape same] shape same differ show ?thesis by simp
qed

end
